theory Spec2Isabelle
  imports Complex_Main
begin

section \<open>Errors and tables\<close>

text \<open>
  The exceptions the two scripts can raise. \<open>KeyError\<close> carries the label of the column
  that a \<^verbatim>\<open>df["..."]\<close> lookup did not find.
\<close>

datatype error =
    EnvironmentError
  | FileNotFoundError
  | OSError
  | EmptyDataError
  | KeyError string
  | DateParseError

text \<open>
  A pandas \<^verbatim>\<open>DataFrame\<close>: the column labels in order, and the rows in order. The rows
  of the raw and of the processed table are typed records (section 3 of the
  specification); the labels are kept beside them because the scripts look columns up by
  label, add columns, and write the labels as the header line of a file.
\<close>

record 'r dataframe =
  columns :: "string list"
  rows :: "'r list"

section \<open>The fetcher (scripts/fetch\_data.py)\<close>

text \<open>One element of \<^verbatim>\<open>data["items"]\<close>, with the seven keys the fetcher reads.\<close>

record repo_item =
  item_name :: string
  item_language :: "string option"
  stargazers_count :: int
  forks_count :: int
  created_at :: string
  pushed_at :: string
  html_url :: string

text \<open>
  A row of the raw table. The two date columns hold text in the raw table and time stamps
  after \<^verbatim>\<open>pd.to_datetime\<close>, hence the parameter \<open>'d\<close>. Only \<open>language\<close> can be
  missing; \<open>stars\<close> and \<open>forks\<close> are integer columns.
\<close>

record 'd raw_repo =
  name :: string
  language :: "string option"
  stars :: int
  forks :: int
  creation_date :: 'd
  last_commit_date :: 'd
  repo_url :: string

text \<open>
  The HTTP exchange. A request is what \<^verbatim>\<open>requests.get(url, headers=headers, params=params)\<close>
  sends; a response carries the status code and the decoded body, whose \<open>items\<close> key may
  be missing (\<open>None\<close>).
\<close>

record request =
  url :: string
  authorization :: string
  q :: string
  sort :: string
  order :: string
  per_page :: nat
  page :: nat

record response =
  status_code :: nat
  items :: "repo_item list option"

definition page_request :: "string \<Rightarrow> nat \<Rightarrow> request" where
  "page_request github_token p =
     \<lparr>url = ''https://api.github.com/search/repositories'',
      authorization = ''Bearer '' @ github_token,
      q = ''stars:>27500'',
      sort = ''stars'',
      order = ''desc'',
      per_page = 100,
      page = p\<rparr>"

definition repo_row :: "repo_item \<Rightarrow> string raw_repo" where
  "repo_row repo =
     \<lparr>name = item_name repo,
      language = item_language repo,
      stars = stargazers_count repo,
      forks = forks_count repo,
      creation_date = created_at repo,
      last_commit_date = pushed_at repo,
      repo_url = html_url repo\<rparr>"

definition raw_columns :: "string list" where
  "raw_columns =
     [''name'', ''language'', ''stars'', ''forks'', ''creation_date'',
      ''last_commit_date'', ''repo_url'']"

text \<open>
  \<^verbatim>\<open>pd.DataFrame(repos)\<close> for a list of dictionaries that all have the seven keys of
  \<open>repo_row\<close>; \<^verbatim>\<open>pd.DataFrame()\<close> and \<^verbatim>\<open>pd.DataFrame([])\<close> have neither columns nor rows.
\<close>

definition DataFrame :: "'d raw_repo list \<Rightarrow> 'd raw_repo dataframe" where
  "DataFrame repos = \<lparr>columns = (if repos = [] then [] else raw_columns), rows = repos\<rparr>"

text \<open>
  The pagination loop \<^verbatim>\<open>while page <= 10\<close>. The state is the page number, the list
  \<open>repos\<close> and the requests sent so far; the result is the list and the requests when the
  loop is left, by its condition or by one of the two \<^verbatim>\<open>break\<close>s.
\<close>

function fetch_pages ::
  "(request \<Rightarrow> response) \<Rightarrow> string \<Rightarrow> nat \<Rightarrow> string raw_repo list \<Rightarrow> request list
     \<Rightarrow> string raw_repo list \<times> request list" where
  "fetch_pages get github_token p repos sent =
     (if p \<le> 10 then
        let params = page_request github_token p;
            resp = get params;
            sent' = sent @ [params]
        in if status_code resp = 200 then
             (case items resp of
                None \<Rightarrow> (repos, sent')
              | Some its \<Rightarrow>
                  if its = [] then (repos, sent')
                  else fetch_pages get github_token (p + 1) (repos @ map repo_row its) sent')
           else (repos, sent')
      else (repos, sent))"
  by pat_completeness auto
termination
  by (relation "measure (\<lambda>(get, github_token, p, repos, sent). 11 - p)") auto

declare fetch_pages.simps [simp del]

text \<open>
  \<^verbatim>\<open>fetch_github_repos\<close>. \<^verbatim>\<open>os.getenv\<close> gives \<open>None\<close> or the text of the variable, and
  \<^verbatim>\<open>not github_token\<close> holds for \<open>None\<close> and for the empty text. The second component of
  the result is the list of requests that were sent.
\<close>

definition fetch_github_repos ::
  "string option \<Rightarrow> (request \<Rightarrow> response) \<Rightarrow> (error + string raw_repo dataframe) \<times> request list" where
  "fetch_github_repos getenv_token get =
     (case getenv_token of
        None \<Rightarrow> (Inl EnvironmentError, [])
      | Some github_token \<Rightarrow>
          if github_token = [] then (Inl EnvironmentError, [])
          else
            let (repos, sent) = fetch_pages get github_token 1 [] []
            in if repos = [] then (Inr (DataFrame []), sent)
               else (Inr (DataFrame repos), sent))"

section \<open>The processor (scripts/process\_data.py)\<close>

text \<open>
  A time stamp is a number of nanoseconds since the epoch, in UTC, as pandas stores it;
  the difference of two time stamps is a \<^verbatim>\<open>Timedelta\<close> in nanoseconds, and its
  \<^verbatim>\<open>.days\<close> is the floor of the quotient by the length of a day.
\<close>

type_synonym timestamp = int

definition timedelta_days :: "int \<Rightarrow> int" where
  "timedelta_days delta = delta div 86400000000000"

text \<open>
  A cell of a \<^verbatim>\<open>float64\<close> column. A finite value is kept as the exact quotient that the
  machine number rounds; \<open>truediv\<close> is the division \<^verbatim>\<open>/\<close> of two columns with finite
  values, which gives an infinity or NaN for a zero divisor and never raises.
\<close>

datatype float64 = Finite rat | PosInf | NegInf | NaN

definition truediv :: "rat \<Rightarrow> rat \<Rightarrow> float64" where
  "truediv a b =
     (if b \<noteq> 0 then Finite (a / b)
      else if 0 < a then PosInf
      else if a < 0 then NegInf
      else NaN)"

datatype category = Low_Popularity | Moderate_Popularity | High_Popularity

text \<open>
  \<^verbatim>\<open>pd.cut(stars, bins=[0, 10000, 50000, inf], labels=[...])\<close>. The intervals of
  \<^verbatim>\<open>pd.cut\<close> are open on the left and closed on the right (\<^verbatim>\<open>right=True\<close>), and the
  lowest edge is not included (\<^verbatim>\<open>include_lowest=False\<close>); a value in no interval gets
  the missing value, here \<open>None\<close>.
\<close>

definition cut :: "int \<Rightarrow> category option" where
  "cut x =
     (if 0 < x \<and> x \<le> 10000 then Some Low_Popularity
      else if 10000 < x \<and> x \<le> 50000 then Some Moderate_Popularity
      else if 50000 < x then Some High_Popularity
      else None)"

text \<open>\<^verbatim>\<open>Series.fillna(value)\<close> and \<^verbatim>\<open>Series.replace(0, 1)\<close>, on one cell.\<close>

definition fillna :: "string \<Rightarrow> string option \<Rightarrow> string option" where
  "fillna v cell = (case cell of None \<Rightarrow> Some v | Some s \<Rightarrow> Some s)"

definition replace :: "int \<Rightarrow> int \<Rightarrow> int \<Rightarrow> int" where
  "replace old new cell = (if cell = old then new else cell)"

text \<open>
  \<^verbatim>\<open>Series.min()\<close> and \<^verbatim>\<open>Series.max()\<close> of an integer column: a reduction over the
  cells, and NaN (here \<open>None\<close>) for a column with no cell.
\<close>

definition series_min :: "int list \<Rightarrow> int option" where
  "series_min xs = (case xs of [] \<Rightarrow> None | x # r \<Rightarrow> Some (fold min r x))"

definition series_max :: "int list \<Rightarrow> int option" where
  "series_max xs = (case xs of [] \<Rightarrow> None | x # r \<Rightarrow> Some (fold max r x))"

text \<open>
  Lines 74 to 79 of \<^verbatim>\<open>process_data\<close>: the column \<open>popularity_score_normalized\<close> from the
  column \<open>popularity_score\<close>. For a table without rows both \<open>min_val\<close> and \<open>max_val\<close> are
  NaN, the comparison \<^verbatim>\<open>min_val == max_val\<close> is false, and the \<^verbatim>\<open>else\<close> branch computes a
  column without cells.
\<close>

definition min_max_normalized :: "int list \<Rightarrow> float64 list" where
  "min_max_normalized scores =
     (case (series_min scores, series_max scores) of
        (Some min_val, Some max_val) \<Rightarrow>
          if min_val = max_val then
            map (\<lambda>x. if x = max_val then Finite 100 else Finite 0) scores
          else
            map (\<lambda>x. truediv (of_int (100 * (x - min_val))) (of_int (max_val - min_val))) scores
      | _ \<Rightarrow> [])"

text \<open>A row of the processed table: the raw columns, the dates as time stamps, and the
  twelve derived columns.\<close>

record processed_repo = "timestamp raw_repo" +
  repo_age_years :: rat
  repo_age_days :: int
  days_since_last_commit :: int
  is_active :: bool
  stars_per_year :: float64
  forks_per_year :: float64
  popularity_score :: int
  engagement_rate :: float64
  star_to_fork_ratio :: float64
  language_known :: bool
  category :: "category option"
  popularity_score_normalized :: float64

text \<open>
  Lines 47 to 71 for one row: \<open>created\<close> and \<open>pushed\<close> are the row's two dates after
  \<^verbatim>\<open>pd.to_datetime\<close>, \<open>normalized\<close> is its cell of the normalized column.
  \<open>repo_age_years\<close> is a quotient by 365 and so always finite.
\<close>

definition derived_row ::
  "timestamp \<Rightarrow> string raw_repo \<Rightarrow> timestamp \<Rightarrow> timestamp \<Rightarrow> float64 \<Rightarrow> processed_repo" where
  "derived_row now r created pushed normalized =
     (let lang = fillna ''Unknown'' (language r);
          age_days = timedelta_days (now - created);
          age_years = of_int age_days / 365;
          since_commit = timedelta_days (now - pushed)
      in \<lparr>name = name r,
          language = lang,
          stars = stars r,
          forks = forks r,
          creation_date = created,
          last_commit_date = pushed,
          repo_url = repo_url r,
          repo_age_years = age_years,
          repo_age_days = age_days,
          days_since_last_commit = since_commit,
          is_active = (since_commit \<le> 180),
          stars_per_year = truediv (of_int (stars r)) age_years,
          forks_per_year = truediv (of_int (forks r)) age_years,
          popularity_score = stars r + 2 * forks r,
          engagement_rate = truediv (of_int (stars r + forks r)) age_years,
          star_to_fork_ratio = truediv (of_int (stars r)) (of_int (replace 0 1 (forks r))),
          language_known = (lang \<noteq> Some ''Unknown''),
          category = cut (stars r),
          popularity_score_normalized = normalized\<rparr>)"

text \<open>\<^verbatim>\<open>df[c] = ...\<close> keeps the place of a column that exists and appends a new one.\<close>

definition set_column :: "string list \<Rightarrow> string \<Rightarrow> string list" where
  "set_column cs c = (if c \<in> set cs then cs else cs @ [c])"

definition assigned_columns :: "string list" where
  "assigned_columns =
     [''language'', ''creation_date'', ''last_commit_date'', ''repo_age_years'',
      ''repo_age_days'', ''days_since_last_commit'', ''is_active'', ''stars_per_year'',
      ''forks_per_year'', ''popularity_score'', ''engagement_rate'', ''star_to_fork_ratio'',
      ''language_known'', ''category'', ''popularity_score_normalized'']"

text \<open>
  \<^verbatim>\<open>process_data\<close>. \<open>to_datetime\<close> is \<^verbatim>\<open>pd.to_datetime\<close> on one cell of text (\<open>None\<close> when
  pandas raises on it) and \<open>now\<close> is the value of \<^verbatim>\<open>Timestamp.now(tz="UTC")\<close>, read once.
  A column that is looked up and missing raises \<^verbatim>\<open>KeyError\<close>, in the order of the
  lookups; a date that does not parse aborts the whole batch. \<open>scores\<close> is the column
  \<open>popularity_score\<close> of line 63, from which lines 74 to 79 compute the normalized column.
\<close>

definition process_data ::
  "(string \<Rightarrow> timestamp option) \<Rightarrow> timestamp \<Rightarrow> string raw_repo dataframe
     \<Rightarrow> error + processed_repo dataframe" where
  "process_data to_datetime now df =
     (if ''language'' \<notin> set (columns df) then Inl (KeyError ''language'')
      else if ''creation_date'' \<notin> set (columns df) then Inl (KeyError ''creation_date'')
      else case those (map (\<lambda>r. to_datetime (creation_date r)) (rows df)) of
        None \<Rightarrow> Inl DateParseError
      | Some created \<Rightarrow>
      if ''last_commit_date'' \<notin> set (columns df) then Inl (KeyError ''last_commit_date'')
      else case those (map (\<lambda>r. to_datetime (last_commit_date r)) (rows df)) of
        None \<Rightarrow> Inl DateParseError
      | Some pushed \<Rightarrow>
      if ''stars'' \<notin> set (columns df) then Inl (KeyError ''stars'')
      else if ''forks'' \<notin> set (columns df) then Inl (KeyError ''forks'')
      else
        let scores = map (\<lambda>r. stars r + 2 * forks r) (rows df);
            normalized = min_max_normalized scores
        in Inr \<lparr>columns = foldl set_column (columns df) assigned_columns,
                rows = map (\<lambda>(r, c, p, n). derived_row now r c p n)
                         (zip (rows df) (zip created (zip pushed normalized)))\<rparr>)"

section \<open>Files (scripts/process\_data.py)\<close>







section \<open>Vocabulary of the properties\<close>




section \<open>Sample inputs\<close>







text \<open>
  Raw tables, after the fixture of tests/test\_process\_data.py: one with three different
  popularity scores, one whose two rows have the same score, and one with a repository
  that has no star. \<open>sample_to_datetime\<close> reads the dates that occur in them, and
  \<open>sample_now\<close> is 2022-03-01T00:00:00Z.
\<close>

definition sample_raw_data :: "string raw_repo dataframe" where
  "sample_raw_data =
     \<lparr>columns = raw_columns,
      rows =
        [\<lparr>name = ''repo1'', language = Some ''Python'', stars = 100, forks = 10,
          creation_date = ''2020-01-01T00:00:00Z'', last_commit_date = ''2022-01-01T00:00:00Z'',
          repo_url = ''www.some_example.com''\<rparr>,
         \<lparr>name = ''repo2'', language = None, stars = 50, forks = 5,
          creation_date = ''2019-01-01T00:00:00Z'', last_commit_date = ''2021-01-01T00:00:00Z'',
          repo_url = ''www.some_other_example.com''\<rparr>,
         \<lparr>name = ''repo3'', language = Some ''Ruby'', stars = 80, forks = 0,
          creation_date = ''2021-01-01T00:00:00Z'', last_commit_date = ''2022-01-01T00:00:00Z'',
          repo_url = ''www.third_example.com''\<rparr>]\<rparr>"


definition zero_star_raw_data :: "string raw_repo dataframe" where
  "zero_star_raw_data =
     \<lparr>columns = raw_columns,
      rows =
        [\<lparr>name = ''repo0'', language = Some ''Python'', stars = 0, forks = 3,
          creation_date = ''2020-01-01T00:00:00Z'', last_commit_date = ''2022-01-01T00:00:00Z'',
          repo_url = ''www.zero_example.com''\<rparr>]\<rparr>"

definition sample_to_datetime :: "string \<Rightarrow> timestamp option" where
  "sample_to_datetime s =
     (if s = ''2019-01-01T00:00:00Z'' then Some 1546300800000000000
      else if s = ''2020-01-01T00:00:00Z'' then Some 1577836800000000000
      else if s = ''2021-01-01T00:00:00Z'' then Some 1609459200000000000
      else if s = ''2022-01-01T00:00:00Z'' then Some 1640995200000000000
      else None)"

definition sample_now :: timestamp where
  "sample_now = 1646092800000000000"


section \<open>Properties of the fetcher\<close>











text \<open>
  C5. When the token variable is absent or empty, \<open>fetch_github_repos\<close> raises the
  configuration error and no request has been sent, whatever the server would answer.
\<close>

theorem fetch_missing_token_raises:
  "fetch_github_repos None get = (Inl EnvironmentError, []) \<and>
   fetch_github_repos (Some []) get = (Inl EnvironmentError, [])"
  by (simp add: fetch_github_repos_def)





section \<open>Properties of the processor\<close>

lemma those_map_Some:
  "those (map f xs) = Some ys \<Longrightarrow>
     length ys = length xs \<and> (\<forall>i<length xs. f (xs ! i) = Some (ys ! i))"
proof (induction xs arbitrary: ys)
  case Nil
  then show ?case by simp
next
  case (Cons x xs)
  then obtain y zs where y: "f x = Some y" and zs: "those (map f xs) = Some zs"
    and ys: "ys = y # zs"
    by (auto split: option.splits)
  from Cons.IH [OF zs] have "length zs = length xs" "\<forall>i<length xs. f (xs ! i) = Some (zs ! i)"
    by simp_all
  with y ys show ?case by (auto simp: nth_Cons split: nat.splits)
qed

lemma length_min_max_normalized: "length (min_max_normalized xs) = length xs"
  by (cases xs) (simp_all add: min_max_normalized_def series_min_def series_max_def)





lemma process_data_Inr:
  assumes "process_data to_datetime now df = Inr out"
  obtains created pushed where
    "those (map (\<lambda>r. to_datetime (creation_date r)) (rows df)) = Some created"
    "those (map (\<lambda>r. to_datetime (last_commit_date r)) (rows df)) = Some pushed"
    "out = \<lparr>columns = foldl set_column (columns df) assigned_columns,
            rows = map (\<lambda>(r, c, p, n). derived_row now r c p n)
                     (zip (rows df) (zip created (zip pushed
                        (min_max_normalized (map (\<lambda>r. stars r + 2 * forks r) (rows df))))))\<rparr>"
  using assms
  by (auto simp: process_data_def Let_def split: if_splits option.splits)

lemma process_data_row:
  assumes "process_data to_datetime now df = Inr out" and "i < length (rows df)"
  shows "length (rows out) = length (rows df) \<and>
         (\<exists>c p. to_datetime (creation_date (rows df ! i)) = Some c \<and>
                to_datetime (last_commit_date (rows df ! i)) = Some p \<and>
                rows out ! i = derived_row now (rows df ! i) c p
                  (min_max_normalized (map (\<lambda>r. stars r + 2 * forks r) (rows df)) ! i))"
proof -
  from assms(1) obtain created pushed where
    c: "those (map (\<lambda>r. to_datetime (creation_date r)) (rows df)) = Some created" and
    p: "those (map (\<lambda>r. to_datetime (last_commit_date r)) (rows df)) = Some pushed" and
    out: "out = \<lparr>columns = foldl set_column (columns df) assigned_columns,
            rows = map (\<lambda>(r, c, p, n). derived_row now r c p n)
                     (zip (rows df) (zip created (zip pushed
                        (min_max_normalized (map (\<lambda>r. stars r + 2 * forks r) (rows df))))))\<rparr>"
    by (rule process_data_Inr)
  from those_map_Some [OF c] have lc: "length created = length (rows df)"
    and ci: "to_datetime (creation_date (rows df ! i)) = Some (created ! i)"
    using assms(2) by simp_all
  from those_map_Some [OF p] have lp: "length pushed = length (rows df)"
    and pi: "to_datetime (last_commit_date (rows df ! i)) = Some (pushed ! i)"
    using assms(2) by simp_all
  show ?thesis
    using out lc lp ci pi assms(2) by (simp add: length_min_max_normalized)
qed


lemma category_cut:
  assumes "process_data to_datetime now df = Inr out" and "i < length (rows df)"
  shows "category (rows out ! i) = cut (stars (rows df ! i))"
  using process_data_row [OF assms] by (auto simp: derived_row_def Let_def)

lemma category_of_positive_stars:
  assumes "process_data to_datetime now df = Inr out" and "i < length (rows df)"
      and "0 < stars (rows df ! i)"
  shows "category (rows out ! i) =
           Some (if stars (rows df ! i) \<le> 10000 then Low_Popularity
                 else if stars (rows df ! i) \<le> 50000 then Moderate_Popularity
                 else High_Popularity)"
  using assms(3) unfolding category_cut [OF assms(1,2)] by (simp add: cut_def)


lemma process_sample_raw_data:
  "\<exists>out. process_data sample_to_datetime sample_now sample_raw_data = Inr out"
  by (simp add: process_data_def sample_raw_data_def sample_to_datetime_def raw_columns_def)


lemma process_zero_star_raw_data:
  "\<exists>out. process_data sample_to_datetime sample_now zero_star_raw_data = Inr out"
  by (simp add: process_data_def zero_star_raw_data_def sample_to_datetime_def raw_columns_def)



text \<open>
  C10. For every row, \<open>days_since_last_commit\<close> is the number of whole days from the last
  commit to \<open>now\<close>, and \<open>is_active\<close> holds exactly when it is at most 180.
\<close>
theorem is_active_threshold:
  assumes "process_data to_datetime now df = Inr out" and "i < length (rows df)"
  shows "\<exists>pushed. to_datetime (last_commit_date (rows df ! i)) = Some pushed \<and>
           days_since_last_commit (rows out ! i) = (now - pushed) div 86400000000000 \<and>
           is_active (rows out ! i) = (days_since_last_commit (rows out ! i) \<le> 180)"
  using process_data_row [OF assms] by (auto simp: derived_row_def Let_def timedelta_days_def)

theorem is_active_threshold_witness:
  "\<exists>out. process_data sample_to_datetime sample_now sample_raw_data = Inr out \<and>
     days_since_last_commit (rows out ! 0) = 59 \<and> is_active (rows out ! 0) \<and>
     days_since_last_commit (rows out ! 1) = 424 \<and> \<not> is_active (rows out ! 1)"
proof -
  obtain out where out: "process_data sample_to_datetime sample_now sample_raw_data = Inr out"
    using process_sample_raw_data by blast
  have i: "0 < length (rows sample_raw_data)" "1 < length (rows sample_raw_data)"
    by (simp_all add: sample_raw_data_def)
  from is_active_threshold [OF out i(1)] have
    "days_since_last_commit (rows out ! 0) = 59 \<and> is_active (rows out ! 0)"
    by (auto simp: sample_raw_data_def sample_to_datetime_def sample_now_def)
  moreover from is_active_threshold [OF out i(2)] have
    "days_since_last_commit (rows out ! 1) = 424 \<and> \<not> is_active (rows out ! 1)"
    by (auto simp: sample_raw_data_def sample_to_datetime_def sample_now_def)
  ultimately show ?thesis using out by blast
qed

text \<open>
  C6. For every row, \<open>star_to_fork_ratio\<close> is \<open>stars / forks\<close> when \<open>forks > 0\<close> and
  \<open>stars / 1\<close> when \<open>forks = 0\<close>; the divisor, \<open>forks\<close> with 0 replaced by 1, is never zero.
\<close>
theorem star_to_fork_ratio_formula:
  assumes "process_data to_datetime now df = Inr out" and "i < length (rows df)"
  shows "(0 < forks (rows df ! i) \<longrightarrow>
            star_to_fork_ratio (rows out ! i) =
              Finite (of_int (stars (rows df ! i)) / of_int (forks (rows df ! i)))) \<and>
         (forks (rows df ! i) = 0 \<longrightarrow>
            star_to_fork_ratio (rows out ! i) = Finite (of_int (stars (rows df ! i)) / 1)) \<and>
         (\<exists>d. d \<noteq> 0 \<and> d = replace 0 1 (forks (rows df ! i)) \<and>
            star_to_fork_ratio (rows out ! i) = Finite (of_int (stars (rows df ! i)) / of_int d))"
  using process_data_row [OF assms]
  by (auto simp: derived_row_def Let_def truediv_def replace_def)

theorem star_to_fork_ratio_formula_witness:
  "\<exists>out. process_data sample_to_datetime sample_now sample_raw_data = Inr out \<and>
     forks (rows sample_raw_data ! 0) = 10 \<and> star_to_fork_ratio (rows out ! 0) = Finite 10 \<and>
     forks (rows sample_raw_data ! 2) = 0 \<and> star_to_fork_ratio (rows out ! 2) = Finite 80"
proof -
  obtain out where out: "process_data sample_to_datetime sample_now sample_raw_data = Inr out"
    using process_sample_raw_data by blast
  have i: "0 < length (rows sample_raw_data)" "2 < length (rows sample_raw_data)"
    by (simp_all add: sample_raw_data_def)
  from star_to_fork_ratio_formula [OF out i(1)] have
    "star_to_fork_ratio (rows out ! 0) = Finite 10" by (simp add: sample_raw_data_def)
  moreover from star_to_fork_ratio_formula [OF out i(2)] have
    "star_to_fork_ratio (rows out ! 2) = Finite 80" by (simp add: sample_raw_data_def)
  ultimately show ?thesis using out by (simp add: sample_raw_data_def)
qed

text \<open>
  C7. For every row, a missing language becomes \<open>''Unknown''\<close> with \<open>language_known\<close>
  false; a language that is present and is not \<open>''Unknown''\<close> is kept, with
  \<open>language_known\<close> true.
\<close>
theorem language_unknown:
  assumes "process_data to_datetime now df = Inr out" and "i < length (rows df)"
  shows "(language (rows df ! i) = None \<longrightarrow>
            language (rows out ! i) = Some ''Unknown'' \<and> \<not> language_known (rows out ! i)) \<and>
         (\<forall>s. language (rows df ! i) = Some s \<and> s \<noteq> ''Unknown'' \<longrightarrow>
            language (rows out ! i) = Some s \<and> language_known (rows out ! i))"
  using process_data_row [OF assms]
  by (auto simp: derived_row_def Let_def fillna_def)

theorem language_unknown_witness:
  "\<exists>out. process_data sample_to_datetime sample_now sample_raw_data = Inr out \<and>
     language (rows sample_raw_data ! 1) = None \<and>
     language (rows out ! 1) = Some ''Unknown'' \<and> \<not> language_known (rows out ! 1) \<and>
     language (rows sample_raw_data ! 0) = Some ''Python'' \<and>
     language (rows out ! 0) = Some ''Python'' \<and> language_known (rows out ! 0)"
proof -
  obtain out where out: "process_data sample_to_datetime sample_now sample_raw_data = Inr out"
    using process_sample_raw_data by blast
  have i: "0 < length (rows sample_raw_data)" "1 < length (rows sample_raw_data)"
    by (simp_all add: sample_raw_data_def)
  from language_unknown [OF out i(2)] have
    "language (rows out ! 1) = Some ''Unknown'' \<and> \<not> language_known (rows out ! 1)"
    by (simp add: sample_raw_data_def)
  moreover from language_unknown [OF out i(1)] have
    "language (rows out ! 0) = Some ''Python'' \<and> language_known (rows out ! 0)"
    by (simp add: sample_raw_data_def)
  ultimately show ?thesis using out by (simp add: sample_raw_data_def)
qed



text \<open>
  C4. The claim gives every row with \<open>stars \<ge> 0\<close> one of the three categories. The row
  of \<open>zero_star_raw_data\<close> has no star, and \<open>process_data\<close> leaves its category missing:
  0 is the lowest edge of the bins and \<^verbatim>\<open>pd.cut\<close> does not include it.
\<close>
theorem category_missing_for_zero_stars:
  "\<exists>out. process_data sample_to_datetime sample_now zero_star_raw_data = Inr out \<and>
     stars (rows zero_star_raw_data ! 0) = 0 \<and> category (rows out ! 0) = None"
proof -
  obtain out where out: "process_data sample_to_datetime sample_now zero_star_raw_data = Inr out"
    using process_zero_star_raw_data by blast
  have i: "0 < length (rows zero_star_raw_data)" by (simp add: zero_star_raw_data_def)
  have "category (rows out ! 0) = None"
    unfolding category_cut [OF out i] by (simp add: zero_star_raw_data_def cut_def)
  moreover have "stars (rows zero_star_raw_data ! 0) = 0" by (simp add: zero_star_raw_data_def)
  ultimately show ?thesis using out by blast
qed

section \<open>Properties of the files\<close>








end
